theory Spec2Isabelle
  imports Complex_Main "HOL-Library.Sublist"
begin

section \<open>Python values\<close>

text \<open>
  The values that reach the program from outside are the results of \<^verbatim>\<open>json.loads\<close> and
  the payloads of socket events: \<^verbatim>\<open>None\<close>, booleans, numbers, strings, lists and dicts with
  string keys. A dict is kept as the list of its items; its keys are distinct. Text is ASCII;
  NaN and the infinities are not represented.
\<close>

datatype pyval =
    PNone
  | PBool bool
  | PInt int
  | PFloat real
  | PStr string
  | PList "pyval list"
  | PDict "(string \<times> pyval) list"

datatype py_error =
    UnicodeDecodeError
  | JSONDecodeError
  | ValueError
  | RecursionError
  | AttributeError
  | TypeError

text \<open>Truth value of an object, as \<^verbatim>\<open>if x\<close>, \<^verbatim>\<open>not x\<close> and \<^verbatim>\<open>x or y\<close> test it.\<close>

fun truthy :: "pyval \<Rightarrow> bool" where
  "truthy PNone = False"
| "truthy (PBool b) = b"
| "truthy (PInt i) = (i \<noteq> 0)"
| "truthy (PFloat x) = (x \<noteq> 0)"
| "truthy (PStr s) = (s \<noteq> [])"
| "truthy (PList xs) = (xs \<noteq> [])"
| "truthy (PDict kvs) = (kvs \<noteq> [])"

text \<open>\<^verbatim>\<open>str.lower\<close> on ASCII text: the letters A to Z move to a to z, every other character stays.\<close>

definition lower_char :: "char \<Rightarrow> char" where
  "lower_char c =
     (case map_of (zip ''ABCDEFGHIJKLMNOPQRSTUVWXYZ'' ''abcdefghijklmnopqrstuvwxyz'') c of
        Some l \<Rightarrow> l
      | None \<Rightarrow> c)"

definition lower :: "string \<Rightarrow> string" where
  "lower s = map lower_char s"

text \<open>The method call \<^verbatim>\<open>x.lower()\<close>: only a string has the attribute.\<close>

fun py_lower :: "pyval \<Rightarrow> py_error + string" where
  "py_lower (PStr s) = Inr (lower s)"
| "py_lower _ = Inl AttributeError"


section \<open>The controller: app.py\<close>

subsection \<open>The command interpreter\<close>

text \<open>
  A directive is the dict \<^verbatim>\<open>{"device": ..., "action": ...}\<close>; the device of a status query is
  \<^verbatim>\<open>None\<close>. The substring test \<^verbatim>\<open>k in text\<close> is \<^const>\<open>sublist\<close>.
\<close>

record directive =
  device :: "string option"
  action :: string

definition process_nlp :: "pyval \<Rightarrow> py_error + directive list" where
  "process_nlp text =
     (case py_lower (if truthy text then text else PStr []) of
        Inl e \<Rightarrow> Inl e
      | Inr text \<Rightarrow> Inr
         (let commands = [];
              commands =
                (if sublist ''front door'' text \<or> sublist ''front-door'' text then
                   (if sublist ''unlock'' text then
                      commands @ [\<lparr>device = Some ''door_lock_1'', action = ''unlock''\<rparr>]
                    else if sublist ''lock'' text then
                      commands @ [\<lparr>device = Some ''door_lock_1'', action = ''lock''\<rparr>]
                    else commands)
                 else commands);
              commands =
                (if sublist ''alarm'' text then
                   (if sublist ''disarm'' text then
                      commands @ [\<lparr>device = Some ''alarm_system'', action = ''disarmed''\<rparr>]
                    else if sublist ''arm'' text then
                      commands @ [\<lparr>device = Some ''alarm_system'', action = ''armed''\<rparr>]
                    else commands)
                 else commands);
              commands =
                (if sublist ''living room'' text \<or> sublist ''living-room'' text then
                   (let commands =
                          (if list_ex (\<lambda>k. sublist k text)
                                [''activate'', ''turn on'', ''enable'', ''on''] then
                             commands @ [\<lparr>device = Some ''motion_sensor_1'', action = ''active''\<rparr>]
                           else commands)
                    in if list_ex (\<lambda>k. sublist k text)
                            [''deactivate'', ''turn off'', ''disable'', ''off''] then
                         commands @ [\<lparr>device = Some ''motion_sensor_1'', action = ''inactive''\<rparr>]
                       else commands)
                 else commands);
              commands =
                (if sublist ''status'' text \<or> sublist ''what is the status'' text
                    \<or> sublist ''report'' text then
                   commands @ [\<lparr>device = None, action = ''query_status''\<rparr>]
                 else commands)
          in commands))"

text \<open>
  The four blocks of \<^const>\<open>process_nlp\<close>, each as the list it appends. They are used to
  take the function apart in proofs.
\<close>

definition front_door_block :: "string \<Rightarrow> directive list" where
  "front_door_block text =
     (if sublist ''front door'' text \<or> sublist ''front-door'' text then
        (if sublist ''unlock'' text then [\<lparr>device = Some ''door_lock_1'', action = ''unlock''\<rparr>]
         else if sublist ''lock'' text then [\<lparr>device = Some ''door_lock_1'', action = ''lock''\<rparr>]
         else [])
      else [])"

definition alarm_block :: "string \<Rightarrow> directive list" where
  "alarm_block text =
     (if sublist ''alarm'' text then
        (if sublist ''disarm'' text then [\<lparr>device = Some ''alarm_system'', action = ''disarmed''\<rparr>]
         else if sublist ''arm'' text then [\<lparr>device = Some ''alarm_system'', action = ''armed''\<rparr>]
         else [])
      else [])"

definition living_room_block :: "string \<Rightarrow> directive list" where
  "living_room_block text =
     (if sublist ''living room'' text \<or> sublist ''living-room'' text then
        (if list_ex (\<lambda>k. sublist k text) [''activate'', ''turn on'', ''enable'', ''on'']
         then [\<lparr>device = Some ''motion_sensor_1'', action = ''active''\<rparr>] else []) @
        (if list_ex (\<lambda>k. sublist k text) [''deactivate'', ''turn off'', ''disable'', ''off'']
         then [\<lparr>device = Some ''motion_sensor_1'', action = ''inactive''\<rparr>] else [])
      else [])"

definition status_block :: "string \<Rightarrow> directive list" where
  "status_block text =
     (if sublist ''status'' text \<or> sublist ''what is the status'' text \<or> sublist ''report'' text
      then [\<lparr>device = None, action = ''query_status''\<rparr>] else [])"

text \<open>
  The category of a directive, numbered in the order of the blocks: door lock, alarm, motion
  sensor, and last the status query, whose device is \<^verbatim>\<open>None\<close>.
\<close>

definition category :: "directive \<Rightarrow> nat" where
  "category d =
     (if device d = Some ''door_lock_1'' then 0
      else if device d = Some ''alarm_system'' then 1
      else if device d = Some ''motion_sensor_1'' then 2
      else 3)"

text \<open>
  A word of an utterance, as opposed to a substring: the text between two spaces or an end of
  the utterance.
\<close>

definition occurs_as_word :: "string \<Rightarrow> string \<Rightarrow> bool" where
  "occurs_as_word w text = sublist ('' '' @ w @ '' '') ('' '' @ text @ '' '')"

subsection \<open>The device state store and the status receive callback\<close>

text \<open>
  \<^verbatim>\<open>device_states\<close> maps a device id to the dict \<^verbatim>\<open>{"name": ..., "state": ...}\<close>. The stored
  state is whatever the last status message carried, so it is a Python value. The store is
  the list of the dict's items, in insertion order.
\<close>

record entry =
  entry_name :: string
  entry_state :: pyval

type_synonym store = "(string \<times> entry) list"


text \<open>The assignment \<^verbatim>\<open>device_states[device_id]["state"] = state\<close>.\<close>

definition set_entry_state :: "string \<Rightarrow> pyval \<Rightarrow> store \<Rightarrow> store" where
  "set_entry_state device_id state ds =
     map (\<lambda>(k, e). if k = device_id then (k, e\<lparr>entry_state := state\<rparr>) else (k, e)) ds"













subsection \<open>The voice command handler\<close>



section \<open>The simulated devices: iot\_device.py\<close>

text \<open>
  A device object: its class, which selects the \<^verbatim>\<open>process_command\<close> that runs, and the
  attributes \<^verbatim>\<open>device_id\<close> and \<^verbatim>\<open>state\<close>.
\<close>

datatype device_class = DoorLock | AlarmSystem | MotionSensor

record device =
  kind :: device_class
  device_id :: string
  state :: string

text \<open>
  What a device does to the outside: a Status Event published on the status topic, a line
  printed to the console, and a sleep of the simulation loop.
\<close>

datatype device_print =
    Published_status string string
  | Changing_state string string string
  | Already_in_state string string
  | Unsupported_command string pyval
  | Motion_detected string
  | Received_command
  | Unknown_device pyval
  | Received_malformed_JSON_command
  | Error_processing_command py_error

datatype device_effect =
    Status_event string string
  | Device_print device_print
  | Sleep nat

definition publish_status :: "device \<Rightarrow> device_effect list" where
  "publish_status self =
     [Status_event (device_id self) (state self),
      Device_print (Published_status (device_id self) (state self))]"

text \<open>The Status Events among the effects, as pairs of device id and state.\<close>

fun status_events :: "device_effect list \<Rightarrow> (string \<times> string) list" where
  "status_events [] = []"
| "status_events (Status_event d s # out) = (d, s) # status_events out"
| "status_events (_ # out) = status_events out"

text \<open>
  The tail the three \<^verbatim>\<open>process_command\<close> methods share, once the new state is known: change
  and publish when it differs from the current state, else only print.
\<close>

definition change_state :: "string \<Rightarrow> device \<Rightarrow> device \<times> device_effect list" where
  "change_state new_state self =
     (if state self \<noteq> new_state then
        (let self' = self\<lparr>state := new_state\<rparr>
         in (self', Device_print (Changing_state (device_id self) (state self) new_state) #
                    publish_status self'))
      else (self, [Device_print (Already_in_state (device_id self) new_state)]))"

definition DoorLock_process_command :: "device \<Rightarrow> pyval \<Rightarrow> device \<times> device_effect list" where
  "DoorLock_process_command self command =
     (if command \<in> set [PStr ''lock'', PStr ''unlock''] then
        (let new_state = (if command = PStr ''lock'' then ''locked'' else ''unlocked'')
         in change_state new_state self)
      else (self, []))"

definition AlarmSystem_process_command :: "device \<Rightarrow> pyval \<Rightarrow> device \<times> device_effect list" where
  "AlarmSystem_process_command self command =
     (case command of
        PStr c \<Rightarrow> if c \<in> set [''armed'', ''disarmed''] then change_state c self else (self, [])
      | _ \<Rightarrow> (self, []))"

text \<open>
  The motion sensor lowers the command first. A command that is true and not a string has no
  \<^verbatim>\<open>lower\<close>; the \<^verbatim>\<open>except\<close> branch then lowers \<^verbatim>\<open>str(command)\<close>. The built-in \<^verbatim>\<open>str\<close> is
  the parameter \<open>str_of\<close>.
\<close>

definition MotionSensor_process_command ::
    "(pyval \<Rightarrow> string) \<Rightarrow> device \<Rightarrow> pyval \<Rightarrow> device \<times> device_effect list" where
  "MotionSensor_process_command str_of self command =
     (let cmd = (case py_lower (if truthy command then command else PStr []) of
                   Inr c \<Rightarrow> c
                 | Inl _ \<Rightarrow> lower (str_of command))
      in if cmd \<in> set [''active'', ''activate'', ''on'', ''enable''] then
           change_state ''active'' self
         else if cmd \<in> set [''inactive'', ''deactivate'', ''off'', ''disable''] then
           change_state ''inactive'' self
         else (self, [Device_print (Unsupported_command (device_id self) command)]))"

definition process_command ::
    "(pyval \<Rightarrow> string) \<Rightarrow> device \<Rightarrow> pyval \<Rightarrow> device \<times> device_effect list" where
  "process_command str_of self command =
     (case kind self of
        DoorLock \<Rightarrow> DoorLock_process_command self command
      | AlarmSystem \<Rightarrow> AlarmSystem_process_command self command
      | MotionSensor \<Rightarrow> MotionSensor_process_command str_of self command)"

text \<open>
  The table of accepted commands of section 4.3 of the specification, by device kind: the
  state a command maps to. The code is compared with it.
\<close>

definition spec_maps_to :: "device_class \<Rightarrow> string \<Rightarrow> string option" where
  "spec_maps_to k c =
     (case k of
        DoorLock \<Rightarrow>
          if c = ''lock'' then Some ''locked''
          else if c = ''unlock'' then Some ''unlocked'' else None
      | AlarmSystem \<Rightarrow>
          if c \<in> set [''armed'', ''disarmed''] then Some c else None
      | MotionSensor \<Rightarrow>
          if c \<in> set [''active'', ''activate'', ''on'', ''enable''] then Some ''active''
          else if c \<in> set [''inactive'', ''deactivate'', ''off'', ''disable''] then Some ''inactive''
          else None)"

subsection \<open>The motion simulation loop\<close>

text \<open>
  One pass of the \<^verbatim>\<open>while True\<close> loop of \<^verbatim>\<open>simulate_motion\<close> takes from outside: the result of
  \<^verbatim>\<open>random.randint(10, 25)\<close>, the state of the alarm object when the condition reads it, and
  the result of \<^verbatim>\<open>random.random()\<close>.
\<close>

record tick =
  sleep_for :: nat
  alarm_state :: string
  chance :: real

definition simulate_motion_pass :: "tick \<Rightarrow> device \<Rightarrow> device \<times> device_effect list" where
  "simulate_motion_pass t self =
     (if alarm_state t = ''armed'' \<and> state self = ''inactive'' \<and> chance t < 3 / 10 then
        (let self1 = self\<lparr>state := ''active''\<rparr>;
             self2 = self1\<lparr>state := ''inactive''\<rparr>
         in (self2, [Sleep (sleep_for t), Device_print (Motion_detected (device_id self))] @
                    publish_status self1 @ [Sleep 5] @ publish_status self2))
      else (self, [Sleep (sleep_for t)]))"

text \<open>
  The loop never ends; it is run for as many passes as there are ticks, which gives every
  finite prefix of its behaviour.
\<close>

fun simulate_motion :: "tick list \<Rightarrow> device \<Rightarrow> device \<times> device_effect list" where
  "simulate_motion [] self = (self, [])"
| "simulate_motion (t # ts) self =
     (let (self1, out1) = simulate_motion_pass t self;
          (self2, out2) = simulate_motion ts self1
      in (self2, out1 @ out2))"

subsection \<open>The command receive callback\<close>






section \<open>Notions used in the statements\<close>



section \<open>Properties of the command interpreter\<close>

subsection \<open>The interpreter as the concatenation of its four blocks\<close>

lemma front_door_stage:
  "(if sublist ''front door'' u \<or> sublist ''front-door'' u then
      (if sublist ''unlock'' u then
         cs @ [\<lparr>device = Some ''door_lock_1'', action = ''unlock''\<rparr>]
       else if sublist ''lock'' u then
         cs @ [\<lparr>device = Some ''door_lock_1'', action = ''lock''\<rparr>]
       else cs)
    else cs) = cs @ front_door_block u"
  by (simp add: front_door_block_def)

lemma alarm_stage:
  "(if sublist ''alarm'' u then
      (if sublist ''disarm'' u then
         cs @ [\<lparr>device = Some ''alarm_system'', action = ''disarmed''\<rparr>]
       else if sublist ''arm'' u then
         cs @ [\<lparr>device = Some ''alarm_system'', action = ''armed''\<rparr>]
       else cs)
    else cs) = cs @ alarm_block u"
  by (simp add: alarm_block_def)

lemma living_room_stage:
  "(if sublist ''living room'' u \<or> sublist ''living-room'' u then
      (if list_ex (\<lambda>k. sublist k u) [''deactivate'', ''turn off'', ''disable'', ''off''] then
         (if list_ex (\<lambda>k. sublist k u) [''activate'', ''turn on'', ''enable'', ''on''] then
            cs @ [\<lparr>device = Some ''motion_sensor_1'', action = ''active''\<rparr>]
          else cs) @ [\<lparr>device = Some ''motion_sensor_1'', action = ''inactive''\<rparr>]
       else (if list_ex (\<lambda>k. sublist k u) [''activate'', ''turn on'', ''enable'', ''on''] then
            cs @ [\<lparr>device = Some ''motion_sensor_1'', action = ''active''\<rparr>]
          else cs))
    else cs) = cs @ living_room_block u"
  unfolding living_room_block_def
  by (cases "list_ex (\<lambda>k. sublist k u) [''activate'', ''turn on'', ''enable'', ''on'']";
      cases "list_ex (\<lambda>k. sublist k u) [''deactivate'', ''turn off'', ''disable'', ''off'']";
      cases "sublist ''living room'' u \<or> sublist ''living-room'' u")
     (simp_all only: if_True if_False append_Nil append_Nil2 append_assoc)

lemma status_stage:
  "(if sublist ''status'' u \<or> sublist ''what is the status'' u \<or> sublist ''report'' u then
      cs @ [\<lparr>device = None, action = ''query_status''\<rparr>]
    else cs) = cs @ status_block u"
  by (simp add: status_block_def)

lemma process_nlp_blocks:
  "process_nlp (PStr t) =
     Inr (front_door_block (lower t) @ alarm_block (lower t) @
          living_room_block (lower t) @ status_block (lower t))"
proof -
  have low: "py_lower (if truthy (PStr t) then PStr t else PStr []) = Inr (lower t)"
    by (simp add: lower_def)
  show ?thesis
    unfolding process_nlp_def low Let_def
      front_door_stage alarm_stage living_room_stage status_stage
    by simp
qed

lemma front_door_block_device:
  "d \<in> set (front_door_block u) \<Longrightarrow> device d = Some ''door_lock_1''"
  by (auto simp: front_door_block_def split: if_splits)

lemma alarm_block_device:
  "d \<in> set (alarm_block u) \<Longrightarrow> device d = Some ''alarm_system''"
  by (auto simp: alarm_block_def split: if_splits)

lemma living_room_block_device:
  "d \<in> set (living_room_block u) \<Longrightarrow> device d = Some ''motion_sensor_1''"
  by (auto simp: living_room_block_def split: if_splits)

lemma status_block_device:
  "d \<in> set (status_block u) \<Longrightarrow> device d = None"
  by (auto simp: status_block_def split: if_splits)

lemma door_directive_in_blocks:
  assumes "device d = Some ''door_lock_1''"
  shows "d \<in> set (front_door_block u @ alarm_block u @ living_room_block u @ status_block u)
           \<longleftrightarrow> d \<in> set (front_door_block u)"
  using assms alarm_block_device[of d u] living_room_block_device[of d u]
    status_block_device[of d u]
  by auto

lemma alarm_directive_in_blocks:
  assumes "device d = Some ''alarm_system''"
  shows "d \<in> set (front_door_block u @ alarm_block u @ living_room_block u @ status_block u)
           \<longleftrightarrow> d \<in> set (alarm_block u)"
  using assms front_door_block_device[of d u] living_room_block_device[of d u]
    status_block_device[of d u]
  by auto

lemma sensor_directive_in_blocks:
  assumes "device d = Some ''motion_sensor_1''"
  shows "d \<in> set (front_door_block u @ alarm_block u @ living_room_block u @ status_block u)
           \<longleftrightarrow> d \<in> set (living_room_block u)"
  using assms front_door_block_device[of d u] alarm_block_device[of d u]
    status_block_device[of d u]
  by auto

lemma status_directive_in_blocks:
  assumes "device d = None"
  shows "d \<in> set (front_door_block u @ alarm_block u @ living_room_block u @ status_block u)
           \<longleftrightarrow> d \<in> set (status_block u)"
  using assms front_door_block_device[of d u] alarm_block_device[of d u]
    living_room_block_device[of d u]
  by auto

lemma unlock_in_front_door_block:
  "\<lparr>device = Some ''door_lock_1'', action = ''unlock''\<rparr> \<in> set (front_door_block u) \<longleftrightarrow>
     (sublist ''front door'' u \<or> sublist ''front-door'' u) \<and> sublist ''unlock'' u"
  by (simp add: front_door_block_def)

lemma lock_in_front_door_block:
  "\<lparr>device = Some ''door_lock_1'', action = ''lock''\<rparr> \<in> set (front_door_block u) \<longleftrightarrow>
     (sublist ''front door'' u \<or> sublist ''front-door'' u) \<and> \<not> sublist ''unlock'' u
       \<and> sublist ''lock'' u"
  by (simp add: front_door_block_def)

lemma disarmed_in_alarm_block:
  "\<lparr>device = Some ''alarm_system'', action = ''disarmed''\<rparr> \<in> set (alarm_block u) \<longleftrightarrow>
     sublist ''alarm'' u \<and> sublist ''disarm'' u"
  by (simp add: alarm_block_def)

lemma armed_in_alarm_block:
  "\<lparr>device = Some ''alarm_system'', action = ''armed''\<rparr> \<in> set (alarm_block u) \<longleftrightarrow>
     sublist ''alarm'' u \<and> \<not> sublist ''disarm'' u \<and> sublist ''arm'' u"
  by (simp add: alarm_block_def)

lemma active_in_living_room_block:
  "\<lparr>device = Some ''motion_sensor_1'', action = ''active''\<rparr> \<in> set (living_room_block u) \<longleftrightarrow>
     (sublist ''living room'' u \<or> sublist ''living-room'' u) \<and>
     (sublist ''activate'' u \<or> sublist ''turn on'' u \<or> sublist ''enable'' u
        \<or> sublist ''on'' u)"
  by (simp add: living_room_block_def)

lemma inactive_in_living_room_block:
  "\<lparr>device = Some ''motion_sensor_1'', action = ''inactive''\<rparr> \<in> set (living_room_block u) \<longleftrightarrow>
     (sublist ''living room'' u \<or> sublist ''living-room'' u) \<and>
     (sublist ''deactivate'' u \<or> sublist ''turn off'' u \<or> sublist ''disable'' u
        \<or> sublist ''off'' u)"
  by (simp add: living_room_block_def)

lemma what_is_the_status: "sublist ''what is the status'' u \<Longrightarrow> sublist ''status'' u"
proof -
  have "sublist ''status'' ''what is the status''"
    by (simp add: sublist_Cons_right)
  then show "sublist ''what is the status'' u \<Longrightarrow> sublist ''status'' u"
    using sublist_order.order_trans by blast
qed

lemma query_in_status_block:
  "\<lparr>device = None, action = ''query_status''\<rparr> \<in> set (status_block u) \<longleftrightarrow>
     sublist ''status'' u \<or> sublist ''report'' u"
  using what_is_the_status[of u] by (auto simp: status_block_def)

lemma sorted_blocks:
  "sorted (map category
     (front_door_block u @ alarm_block u @ living_room_block u @ status_block u))"
proof -
  have a: "\<forall>d\<in>set (front_door_block u). category d = 0"
    using front_door_block_device by (simp add: category_def)
  have b: "\<forall>d\<in>set (alarm_block u). category d = 1"
    using alarm_block_device by (simp add: category_def)
  have c: "\<forall>d\<in>set (living_room_block u). category d = 2"
    using living_room_block_device by (simp add: category_def)
  have d: "\<forall>d\<in>set (status_block u). category d = 3"
    using status_block_device by (simp add: category_def)
  have sa: "sorted (map category (front_door_block u))"
    by (simp add: front_door_block_def)
  have sb: "sorted (map category (alarm_block u))"
    by (simp add: alarm_block_def)
  have sc: "sorted (map category (living_room_block u))"
    by (simp add: living_room_block_def category_def)
  have sd: "sorted (map category (status_block u))"
    by (simp add: status_block_def)
  show ?thesis
    using a b c d sa sb sc sd by (auto simp: sorted_append)
qed

text \<open>
  The keywords are in lower case, so a keyword that occurs in the utterance as typed occurs
  in the lowered text too.
\<close>

lemma keyword_in_lowered_text:
  assumes "sublist k t" and "lower k = k"
  shows "sublist k (lower t)"
proof -
  from assms(1) have "sublist (map lower_char k) (map lower_char t)"
    by (rule map_mono_sublist)
  with assms(2) show ?thesis
    by (simp add: lower_def)
qed

subsection \<open>Precedence of unlock over lock and of disarm over arm\<close>

text \<open>
  C1. For every utterance that mentions the front door (in either spelling, in any case of
  letters) and contains "unlock", \<^const>\<open>process_nlp\<close> emits the directive
  door\_lock\_1/unlock and not door\_lock\_1/lock; for every utterance that contains "alarm" and
  "disarm" it emits alarm\_system/disarmed and not alarm\_system/armed. The four utterances
  "unlock the front door", "lock the front door", "disarm the alarm" and "arm the alarm" each
  yield exactly the one directive named.
\<close>

theorem process_nlp_unlock_disarm_precedence:
  "((sublist ''front door'' (lower t) \<or> sublist ''front-door'' (lower t)) \<and> sublist ''unlock'' (lower t)
      \<longrightarrow> (\<exists>cs. process_nlp (PStr t) = Inr cs
            \<and> \<lparr>device = Some ''door_lock_1'', action = ''unlock''\<rparr> \<in> set cs
            \<and> \<lparr>device = Some ''door_lock_1'', action = ''lock''\<rparr> \<notin> set cs))
   \<and> (sublist ''alarm'' (lower t) \<and> sublist ''disarm'' (lower t)
      \<longrightarrow> (\<exists>cs. process_nlp (PStr t) = Inr cs
            \<and> \<lparr>device = Some ''alarm_system'', action = ''disarmed''\<rparr> \<in> set cs
            \<and> \<lparr>device = Some ''alarm_system'', action = ''armed''\<rparr> \<notin> set cs))
   \<and> process_nlp (PStr ''unlock the front door'') =
        Inr [\<lparr>device = Some ''door_lock_1'', action = ''unlock''\<rparr>]
   \<and> process_nlp (PStr ''lock the front door'') =
        Inr [\<lparr>device = Some ''door_lock_1'', action = ''lock''\<rparr>]
   \<and> process_nlp (PStr ''disarm the alarm'') =
        Inr [\<lparr>device = Some ''alarm_system'', action = ''disarmed''\<rparr>]
   \<and> process_nlp (PStr ''arm the alarm'') =
        Inr [\<lparr>device = Some ''alarm_system'', action = ''armed''\<rparr>]"
proof -
  have door: "(sublist ''front door'' (lower t) \<or> sublist ''front-door'' (lower t))
      \<and> sublist ''unlock'' (lower t)
      \<longrightarrow> (\<exists>cs. process_nlp (PStr t) = Inr cs
            \<and> \<lparr>device = Some ''door_lock_1'', action = ''unlock''\<rparr> \<in> set cs
            \<and> \<lparr>device = Some ''door_lock_1'', action = ''lock''\<rparr> \<notin> set cs)"
    by (simp add: process_nlp_blocks door_directive_in_blocks
        unlock_in_front_door_block lock_in_front_door_block del: set_append)
  have alarm: "sublist ''alarm'' (lower t) \<and> sublist ''disarm'' (lower t)
      \<longrightarrow> (\<exists>cs. process_nlp (PStr t) = Inr cs
            \<and> \<lparr>device = Some ''alarm_system'', action = ''disarmed''\<rparr> \<in> set cs
            \<and> \<lparr>device = Some ''alarm_system'', action = ''armed''\<rparr> \<notin> set cs)"
    by (simp add: process_nlp_blocks alarm_directive_in_blocks
        disarmed_in_alarm_block armed_in_alarm_block del: set_append)
  have e1: "process_nlp (PStr ''unlock the front door'') =
        Inr [\<lparr>device = Some ''door_lock_1'', action = ''unlock''\<rparr>]"
    by (simp add: process_nlp_def lower_def lower_char_def sublist_Cons_right)
  have e2: "process_nlp (PStr ''lock the front door'') =
        Inr [\<lparr>device = Some ''door_lock_1'', action = ''lock''\<rparr>]"
    by (simp add: process_nlp_def lower_def lower_char_def sublist_Cons_right)
  have e3: "process_nlp (PStr ''disarm the alarm'') =
        Inr [\<lparr>device = Some ''alarm_system'', action = ''disarmed''\<rparr>]"
    by (simp add: process_nlp_def lower_def lower_char_def sublist_Cons_right)
  have e4: "process_nlp (PStr ''arm the alarm'') =
        Inr [\<lparr>device = Some ''alarm_system'', action = ''armed''\<rparr>]"
    by (simp add: process_nlp_def lower_def lower_char_def sublist_Cons_right)
  from door alarm e1 e2 e3 e4 show ?thesis by blast
qed

text \<open>
  Witness for C1: a mixed-case utterance that names the front door with "unlock" and the
  alarm with "disarm" yields the unlock and the disarmed directive, and neither lock nor armed.
\<close>

theorem process_nlp_unlock_disarm_precedence_witness:
  "(sublist ''front door'' (lower ''Unlock the FRONT DOOR and disarm the alarm'')
      \<or> sublist ''front-door'' (lower ''Unlock the FRONT DOOR and disarm the alarm''))
   \<and> sublist ''unlock'' (lower ''Unlock the FRONT DOOR and disarm the alarm'')
   \<and> sublist ''alarm'' (lower ''Unlock the FRONT DOOR and disarm the alarm'')
   \<and> sublist ''disarm'' (lower ''Unlock the FRONT DOOR and disarm the alarm'')
   \<and> (\<exists>cs. process_nlp (PStr ''Unlock the FRONT DOOR and disarm the alarm'') = Inr cs
            \<and> \<lparr>device = Some ''door_lock_1'', action = ''unlock''\<rparr> \<in> set cs
            \<and> \<lparr>device = Some ''door_lock_1'', action = ''lock''\<rparr> \<notin> set cs
            \<and> \<lparr>device = Some ''alarm_system'', action = ''disarmed''\<rparr> \<in> set cs
            \<and> \<lparr>device = Some ''alarm_system'', action = ''armed''\<rparr> \<notin> set cs)"
proof -
  have low: "lower ''Unlock the FRONT DOOR and disarm the alarm'' =
      ''unlock the front door and disarm the alarm''"
    by (simp add: lower_def lower_char_def)
  have h1: "sublist ''front door'' (lower ''Unlock the FRONT DOOR and disarm the alarm'')"
    unfolding low by (simp add: sublist_Cons_right)
  have h2: "sublist ''unlock'' (lower ''Unlock the FRONT DOOR and disarm the alarm'')"
    unfolding low by (simp add: sublist_Cons_right)
  have h3: "sublist ''alarm'' (lower ''Unlock the FRONT DOOR and disarm the alarm'')"
    unfolding low by (simp add: sublist_Cons_right)
  have h4: "sublist ''disarm'' (lower ''Unlock the FRONT DOOR and disarm the alarm'')"
    unfolding low by (simp add: sublist_Cons_right)
  from h1 h2 h3 h4 process_nlp_unlock_disarm_precedence [of "''Unlock the FRONT DOOR and disarm the alarm''"]
  show ?thesis by auto
qed

subsection \<open>Order of the directives\<close>

text \<open>
  C2. For every input text the directives of \<^const>\<open>process_nlp\<close> come in the order of
  the categories: door lock, alarm, motion sensor, status query. Whether a directive of one
  of the first three categories is in the result depends on its own keywords only, so a
  status query suppresses none of them; the status query is in the result exactly when the
  text contains "status" or "report". The utterance "turn on living room sensor and report
  status" yields exactly the directive motion\_sensor\_1/active followed by the status query.
\<close>

theorem process_nlp_category_order:
  "(\<exists>cs. process_nlp (PStr t) = Inr cs
      \<and> sorted (map category cs)
      \<and> (\<lparr>device = Some ''door_lock_1'', action = ''unlock''\<rparr> \<in> set cs \<longleftrightarrow>
           (sublist ''front door'' (lower t) \<or> sublist ''front-door'' (lower t))
           \<and> sublist ''unlock'' (lower t))
      \<and> (\<lparr>device = Some ''door_lock_1'', action = ''lock''\<rparr> \<in> set cs \<longleftrightarrow>
           (sublist ''front door'' (lower t) \<or> sublist ''front-door'' (lower t))
           \<and> \<not> sublist ''unlock'' (lower t) \<and> sublist ''lock'' (lower t))
      \<and> (\<lparr>device = Some ''alarm_system'', action = ''disarmed''\<rparr> \<in> set cs \<longleftrightarrow>
           sublist ''alarm'' (lower t) \<and> sublist ''disarm'' (lower t))
      \<and> (\<lparr>device = Some ''alarm_system'', action = ''armed''\<rparr> \<in> set cs \<longleftrightarrow>
           sublist ''alarm'' (lower t) \<and> \<not> sublist ''disarm'' (lower t) \<and> sublist ''arm'' (lower t))
      \<and> (\<lparr>device = Some ''motion_sensor_1'', action = ''active''\<rparr> \<in> set cs \<longleftrightarrow>
           (sublist ''living room'' (lower t) \<or> sublist ''living-room'' (lower t))
           \<and> (sublist ''activate'' (lower t) \<or> sublist ''turn on'' (lower t)
                \<or> sublist ''enable'' (lower t) \<or> sublist ''on'' (lower t)))
      \<and> (\<lparr>device = Some ''motion_sensor_1'', action = ''inactive''\<rparr> \<in> set cs \<longleftrightarrow>
           (sublist ''living room'' (lower t) \<or> sublist ''living-room'' (lower t))
           \<and> (sublist ''deactivate'' (lower t) \<or> sublist ''turn off'' (lower t)
                \<or> sublist ''disable'' (lower t) \<or> sublist ''off'' (lower t)))
      \<and> (\<lparr>device = None, action = ''query_status''\<rparr> \<in> set cs \<longleftrightarrow>
           sublist ''status'' (lower t) \<or> sublist ''report'' (lower t)))
   \<and> process_nlp (PStr ''turn on living room sensor and report status'') =
        Inr [\<lparr>device = Some ''motion_sensor_1'', action = ''active''\<rparr>,
             \<lparr>device = None, action = ''query_status''\<rparr>]"
proof -
  let ?cs = "front_door_block (lower t) @ alarm_block (lower t) @
             living_room_block (lower t) @ status_block (lower t)"
  have run: "process_nlp (PStr t) = Inr ?cs"
    by (rule process_nlp_blocks)
  have ord: "sorted (map category ?cs)"
    by (rule sorted_blocks)
  have m1: "\<lparr>device = Some ''door_lock_1'', action = ''unlock''\<rparr> \<in> set ?cs \<longleftrightarrow>
           (sublist ''front door'' (lower t) \<or> sublist ''front-door'' (lower t))
           \<and> sublist ''unlock'' (lower t)"
    by (simp add: door_directive_in_blocks unlock_in_front_door_block del: set_append)
  have m2: "\<lparr>device = Some ''door_lock_1'', action = ''lock''\<rparr> \<in> set ?cs \<longleftrightarrow>
           (sublist ''front door'' (lower t) \<or> sublist ''front-door'' (lower t))
           \<and> \<not> sublist ''unlock'' (lower t) \<and> sublist ''lock'' (lower t)"
    by (simp add: door_directive_in_blocks lock_in_front_door_block del: set_append)
  have m3: "\<lparr>device = Some ''alarm_system'', action = ''disarmed''\<rparr> \<in> set ?cs \<longleftrightarrow>
           sublist ''alarm'' (lower t) \<and> sublist ''disarm'' (lower t)"
    by (simp add: alarm_directive_in_blocks disarmed_in_alarm_block del: set_append)
  have m4: "\<lparr>device = Some ''alarm_system'', action = ''armed''\<rparr> \<in> set ?cs \<longleftrightarrow>
           sublist ''alarm'' (lower t) \<and> \<not> sublist ''disarm'' (lower t) \<and> sublist ''arm'' (lower t)"
    by (simp add: alarm_directive_in_blocks armed_in_alarm_block del: set_append)
  have m5: "\<lparr>device = Some ''motion_sensor_1'', action = ''active''\<rparr> \<in> set ?cs \<longleftrightarrow>
           (sublist ''living room'' (lower t) \<or> sublist ''living-room'' (lower t))
           \<and> (sublist ''activate'' (lower t) \<or> sublist ''turn on'' (lower t)
                \<or> sublist ''enable'' (lower t) \<or> sublist ''on'' (lower t))"
    by (simp add: sensor_directive_in_blocks active_in_living_room_block del: set_append)
  have m6: "\<lparr>device = Some ''motion_sensor_1'', action = ''inactive''\<rparr> \<in> set ?cs \<longleftrightarrow>
           (sublist ''living room'' (lower t) \<or> sublist ''living-room'' (lower t))
           \<and> (sublist ''deactivate'' (lower t) \<or> sublist ''turn off'' (lower t)
                \<or> sublist ''disable'' (lower t) \<or> sublist ''off'' (lower t))"
    by (simp add: sensor_directive_in_blocks inactive_in_living_room_block del: set_append)
  have m7: "\<lparr>device = None, action = ''query_status''\<rparr> \<in> set ?cs \<longleftrightarrow>
           sublist ''status'' (lower t) \<or> sublist ''report'' (lower t)"
    by (simp add: status_directive_in_blocks query_in_status_block del: set_append)
  have ex: "process_nlp (PStr ''turn on living room sensor and report status'') =
        Inr [\<lparr>device = Some ''motion_sensor_1'', action = ''active''\<rparr>,
             \<lparr>device = None, action = ''query_status''\<rparr>]"
    by (simp add: process_nlp_def lower_def lower_char_def sublist_Cons_right)
  from run ord m1 m2 m3 m4 m5 m6 m7 ex show ?thesis
    by (intro conjI exI[of _ ?cs])
qed

subsection \<open>Substring matching of the turn-on words\<close>

text \<open>
  C9. The turn-on test is substring containment: the utterance "lock the front door and the
  living room" names the living room, contains none of "activate", "turn on" and "enable" and
  has no word "on", but "on" occurs inside "front", and \<^const>\<open>process_nlp\<close> emits
  motion\_sensor\_1/active for it.
\<close>

theorem process_nlp_on_inside_a_word:
  "sublist ''living room'' (lower ''lock the front door and the living room'')
   \<and> \<not> sublist ''activate'' (lower ''lock the front door and the living room'')
   \<and> \<not> sublist ''turn on'' (lower ''lock the front door and the living room'')
   \<and> \<not> sublist ''enable'' (lower ''lock the front door and the living room'')
   \<and> \<not> occurs_as_word ''on'' (lower ''lock the front door and the living room'')
   \<and> sublist ''on'' ''front''
   \<and> process_nlp (PStr ''lock the front door and the living room'') =
        Inr [\<lparr>device = Some ''door_lock_1'', action = ''lock''\<rparr>,
             \<lparr>device = Some ''motion_sensor_1'', action = ''active''\<rparr>]"
proof -
  have low: "lower ''lock the front door and the living room'' =
      ''lock the front door and the living room''"
    by (simp add: lower_def lower_char_def)
  have a: "sublist ''living room'' ''lock the front door and the living room''"
    by (simp add: sublist_Cons_right)
  have b: "\<not> sublist ''activate'' ''lock the front door and the living room''"
    by (simp add: sublist_Cons_right)
  have c: "\<not> sublist ''turn on'' ''lock the front door and the living room''"
    by (simp add: sublist_Cons_right)
  have d: "\<not> sublist ''enable'' ''lock the front door and the living room''"
    by (simp add: sublist_Cons_right)
  have e: "\<not> occurs_as_word ''on'' ''lock the front door and the living room''"
    by (simp add: occurs_as_word_def sublist_Cons_right)
  have f: "sublist ''on'' ''front''"
    by (simp add: sublist_Cons_right)
  have g: "process_nlp (PStr ''lock the front door and the living room'') =
        Inr [\<lparr>device = Some ''door_lock_1'', action = ''lock''\<rparr>,
             \<lparr>device = Some ''motion_sensor_1'', action = ''active''\<rparr>]"
    by (simp add: process_nlp_def lower_def lower_char_def sublist_Cons_right)
  from a b c d e f g show ?thesis
    unfolding low by (intro conjI)
qed

section \<open>Properties of the device agents\<close>

subsection \<open>Accepted commands\<close>

lemma status_events_publish_status [simp]:
  "status_events (publish_status self) = [(device_id self, state self)]"
  by (simp add: publish_status_def)

lemma change_state_cases:
  "change_state s self =
     (if state self = s then (self, [Device_print (Already_in_state (device_id self) s)])
      else (self\<lparr>state := s\<rparr>,
            [Device_print (Changing_state (device_id self) (state self) s),
             Status_event (device_id self) s,
             Device_print (Published_status (device_id self) s)]))"
  by (simp add: change_state_def publish_status_def)

lemma change_state_rule:
  "fst (change_state s self) = (if state self = s then self else self\<lparr>state := s\<rparr>)"
  "status_events (snd (change_state s self)) = (if state self = s then [] else [(device_id self, s)])"
  by (simp_all add: change_state_cases)

lemma lower_command_words:
  "lower ''active'' = ''active''" "lower ''activate'' = ''activate''" "lower ''on'' = ''on''"
  "lower ''enable'' = ''enable''" "lower ''inactive'' = ''inactive''"
  "lower ''deactivate'' = ''deactivate''" "lower ''off'' = ''off''" "lower ''disable'' = ''disable''"
  by (simp_all add: lower_def lower_char_def)

lemma process_command_accepted:
  assumes "spec_maps_to (kind self) c = Some s"
  shows "process_command str_of self (PStr c) = change_state s self"
proof (cases "kind self")
  case DoorLock
  with assms show ?thesis
    by (auto simp: process_command_def DoorLock_process_command_def spec_maps_to_def
        split: if_splits)
next
  case AlarmSystem
  with assms show ?thesis
    by (auto simp: process_command_def AlarmSystem_process_command_def spec_maps_to_def
        split: if_splits)
next
  case MotionSensor
  with assms have "c \<in> set [''active'', ''activate'', ''on'', ''enable''] \<and> s = ''active''
      \<or> c \<in> set [''inactive'', ''deactivate'', ''off'', ''disable''] \<and> s = ''inactive''"
    by (auto simp: spec_maps_to_def split: if_splits)
  with MotionSensor show ?thesis
    by (auto simp: process_command_def MotionSensor_process_command_def lower_command_words)
qed

text \<open>
  C5. For every device agent and every command \<open>c\<close> that the table of accepted commands maps
  to a state \<open>s\<close>: when \<open>s\<close> differs from the current state the agent moves to \<open>s\<close> and emits
  exactly one Status Event, for \<open>s\<close>; when \<open>s\<close> is the current state the agent is unchanged and
  emits no Status Event. A door lock that is locked emits no event on "lock"; on "unlock" it
  becomes unlocked and emits exactly one event.
\<close>

theorem process_command_transition_rule:
  "(spec_maps_to (kind self) c = Some s \<longrightarrow>
      fst (process_command str_of self (PStr c)) =
        (if state self = s then self else self\<lparr>state := s\<rparr>)
      \<and> status_events (snd (process_command str_of self (PStr c))) =
        (if state self = s then [] else [(device_id self, s)]))
   \<and> status_events (snd (process_command str_of
        \<lparr>kind = DoorLock, device_id = ''door_lock_1'', state = ''locked''\<rparr> (PStr ''lock''))) = []
   \<and> fst (process_command str_of
        \<lparr>kind = DoorLock, device_id = ''door_lock_1'', state = ''locked''\<rparr> (PStr ''unlock'')) =
        \<lparr>kind = DoorLock, device_id = ''door_lock_1'', state = ''unlocked''\<rparr>
   \<and> status_events (snd (process_command str_of
        \<lparr>kind = DoorLock, device_id = ''door_lock_1'', state = ''locked''\<rparr> (PStr ''unlock''))) =
        [(''door_lock_1'', ''unlocked'')]"
proof -
  have general: "spec_maps_to (kind self) c = Some s \<longrightarrow>
      fst (process_command str_of self (PStr c)) =
        (if state self = s then self else self\<lparr>state := s\<rparr>)
      \<and> status_events (snd (process_command str_of self (PStr c))) =
        (if state self = s then [] else [(device_id self, s)])"
    by (simp add: process_command_accepted change_state_rule)
  have lock: "spec_maps_to DoorLock ''lock'' = Some ''locked''"
    and unlock: "spec_maps_to DoorLock ''unlock'' = Some ''unlocked''"
    by (simp_all add: spec_maps_to_def)
  have e1: "status_events (snd (process_command str_of
        \<lparr>kind = DoorLock, device_id = ''door_lock_1'', state = ''locked''\<rparr> (PStr ''lock''))) = []"
    using lock by (simp add: process_command_accepted change_state_rule)
  have e2: "fst (process_command str_of
        \<lparr>kind = DoorLock, device_id = ''door_lock_1'', state = ''locked''\<rparr> (PStr ''unlock'')) =
        \<lparr>kind = DoorLock, device_id = ''door_lock_1'', state = ''unlocked''\<rparr>"
    using unlock by (simp add: process_command_accepted change_state_rule)
  have e3: "status_events (snd (process_command str_of
        \<lparr>kind = DoorLock, device_id = ''door_lock_1'', state = ''locked''\<rparr> (PStr ''unlock''))) =
        [(''door_lock_1'', ''unlocked'')]"
    using unlock by (simp add: process_command_accepted change_state_rule)
  from general e1 e2 e3 show ?thesis by (intro conjI)
qed

text \<open>
  Witness for C5: "enable" is an accepted command of the motion sensor; an inactive sensor
  becomes active and emits the one Status Event.
\<close>

theorem process_command_transition_rule_witness:
  "\<forall>str_of.
     spec_maps_to (kind \<lparr>kind = MotionSensor, device_id = ''motion_sensor_1'', state = ''inactive''\<rparr>)
       ''enable'' = Some ''active''
   \<and> fst (process_command str_of
        \<lparr>kind = MotionSensor, device_id = ''motion_sensor_1'', state = ''inactive''\<rparr> (PStr ''enable'')) =
        \<lparr>kind = MotionSensor, device_id = ''motion_sensor_1'', state = ''active''\<rparr>
   \<and> status_events (snd (process_command str_of
        \<lparr>kind = MotionSensor, device_id = ''motion_sensor_1'', state = ''inactive''\<rparr> (PStr ''enable''))) =
        [(''motion_sensor_1'', ''active'')]"
proof
  fix str_of :: "pyval \<Rightarrow> string"
  have h: "spec_maps_to (kind \<lparr>kind = MotionSensor, device_id = ''motion_sensor_1'', state = ''inactive''\<rparr>)
       ''enable'' = Some ''active''"
    by (simp add: spec_maps_to_def)
  from h process_command_transition_rule
    [of "\<lparr>kind = MotionSensor, device_id = ''motion_sensor_1'', state = ''inactive''\<rparr>"
        "''enable''" "''active''" str_of]
  show "spec_maps_to (kind \<lparr>kind = MotionSensor, device_id = ''motion_sensor_1'', state = ''inactive''\<rparr>)
       ''enable'' = Some ''active''
   \<and> fst (process_command str_of
        \<lparr>kind = MotionSensor, device_id = ''motion_sensor_1'', state = ''inactive''\<rparr> (PStr ''enable'')) =
        \<lparr>kind = MotionSensor, device_id = ''motion_sensor_1'', state = ''active''\<rparr>
   \<and> status_events (snd (process_command str_of
        \<lparr>kind = MotionSensor, device_id = ''motion_sensor_1'', state = ''inactive''\<rparr> (PStr ''enable''))) =
        [(''motion_sensor_1'', ''active'')]"
    by simp
qed

subsection \<open>Commands that map to no state\<close>

text \<open>
  A command outside the table changes no state and emits no Status Event, in any of the
  three classes; the motion sensor lowers the command before it looks it up.
\<close>

lemma unmapped_command_keeps_state:
  "spec_maps_to DoorLock c = None \<Longrightarrow> DoorLock_process_command self (PStr c) = (self, [])"
  "spec_maps_to AlarmSystem c = None \<Longrightarrow> AlarmSystem_process_command self (PStr c) = (self, [])"
  "spec_maps_to MotionSensor (lower c) = None \<Longrightarrow>
     MotionSensor_process_command str_of self (PStr c) =
       (self, [Device_print (Unsupported_command (device_id self) (PStr c))])"
proof -
  show "spec_maps_to DoorLock c = None \<Longrightarrow> DoorLock_process_command self (PStr c) = (self, [])"
    by (auto simp: spec_maps_to_def DoorLock_process_command_def split: if_splits)
  show "spec_maps_to AlarmSystem c = None \<Longrightarrow>
      AlarmSystem_process_command self (PStr c) = (self, [])"
    by (auto simp: spec_maps_to_def AlarmSystem_process_command_def split: if_splits)
  show "spec_maps_to MotionSensor (lower c) = None \<Longrightarrow>
     MotionSensor_process_command str_of self (PStr c) =
       (self, [Device_print (Unsupported_command (device_id self) (PStr c))])"
  proof -
    assume none: "spec_maps_to MotionSensor (lower c) = None"
    have cmd: "(case py_lower (if truthy (PStr c) then PStr c else PStr []) of
                  Inr c' \<Rightarrow> c' | Inl _ \<Rightarrow> lower (str_of (PStr c))) = lower c"
      by (simp add: lower_def)
    from none have "lower c \<notin> set [''active'', ''activate'', ''on'', ''enable'']"
      and "lower c \<notin> set [''inactive'', ''deactivate'', ''off'', ''disable'']"
      by (auto simp: spec_maps_to_def split: if_splits)
    then show ?thesis
      unfolding MotionSensor_process_command_def cmd Let_def by simp
  qed
qed

text \<open>
  C7. A command that maps to no state of the device is to be rejected with a logged line, no
  Status Event and no state change. The motion sensor prints "Unsupported command" for it.
  The door lock that receives "disarmed", and the alarm that receives "lock", keep their state
  and emit nothing, and print nothing either: the rejection is not logged.
\<close>

theorem door_lock_rejects_silently:
  "DoorLock_process_command
     \<lparr>kind = DoorLock, device_id = ''door_lock_1'', state = ''locked''\<rparr> (PStr ''disarmed'') =
     (\<lparr>kind = DoorLock, device_id = ''door_lock_1'', state = ''locked''\<rparr>, [])
   \<and> AlarmSystem_process_command
     \<lparr>kind = AlarmSystem, device_id = ''alarm_system'', state = ''disarmed''\<rparr> (PStr ''lock'') =
     (\<lparr>kind = AlarmSystem, device_id = ''alarm_system'', state = ''disarmed''\<rparr>, [])
   \<and> MotionSensor_process_command str_of
     \<lparr>kind = MotionSensor, device_id = ''motion_sensor_1'', state = ''inactive''\<rparr> (PStr ''lock'') =
     (\<lparr>kind = MotionSensor, device_id = ''motion_sensor_1'', state = ''inactive''\<rparr>,
      [Device_print (Unsupported_command ''motion_sensor_1'' (PStr ''lock''))])"
  by (simp add: DoorLock_process_command_def AlarmSystem_process_command_def
      MotionSensor_process_command_def lower_def lower_char_def)

subsection \<open>The motion simulation\<close>

lemma simulate_motion_pass_idle:
  assumes "\<not> (alarm_state t = ''armed'' \<and> state self = ''inactive'' \<and> chance t < 3 / 10)"
  shows "simulate_motion_pass t self = (self, [Sleep (sleep_for t)])"
  unfolding simulate_motion_pass_def using assms by (simp only: if_False)

lemma simulate_motion_pass_fires:
  assumes "alarm_state t = ''armed''" "state self = ''inactive''" "chance t < 3 / 10"
  shows "simulate_motion_pass t self =
     (self,
      [Sleep (sleep_for t), Device_print (Motion_detected (device_id self)),
       Status_event (device_id self) ''active'',
       Device_print (Published_status (device_id self) ''active''),
       Sleep 5,
       Status_event (device_id self) ''inactive'',
       Device_print (Published_status (device_id self) ''inactive'')])"
proof -
  have "self\<lparr>state := ''inactive''\<rparr> = self"
    using assms(2) by (metis device.surjective device.update_convs(3) old.unit.exhaust)
  then show ?thesis
    unfolding simulate_motion_pass_def using assms
    by (simp add: publish_status_def)
qed

lemma simulate_motion_disarmed:
  assumes "\<forall>t\<in>set ticks. alarm_state t = ''disarmed''"
  shows "fst (simulate_motion ticks self) = self
       \<and> status_events (snd (simulate_motion ticks self)) = []"
  using assms
proof (induction ticks)
  case Nil
  then show ?case by simp
next
  case (Cons t ticks)
  then have "simulate_motion_pass t self = (self, [Sleep (sleep_for t)])"
    by (simp add: simulate_motion_pass_idle)
  with Cons show ?case
    by (simp add: case_prod_beta)
qed

lemma status_events_append:
  "status_events (a @ b) = status_events a @ status_events b"
  by (induction a rule: status_events.induct) simp_all

lemma simulate_motion_pass_state: "fst (simulate_motion_pass t self) = self"
proof (cases "alarm_state t = ''armed'' \<and> state self = ''inactive'' \<and> chance t < 3 / 10")
  case True
  then show ?thesis by (simp add: simulate_motion_pass_fires)
next
  case False
  then show ?thesis by (simp add: simulate_motion_pass_idle)
qed

lemma simulate_motion_pass_events:
  "status_events (snd (simulate_motion_pass t self)) =
     (if alarm_state t = ''armed'' \<and> state self = ''inactive'' \<and> chance t < 3 / 10
      then [(device_id self, ''active''), (device_id self, ''inactive'')] else [])"
proof (cases "alarm_state t = ''armed'' \<and> state self = ''inactive'' \<and> chance t < 3 / 10")
  case True
  then show ?thesis by (simp add: simulate_motion_pass_fires)
next
  case False
  then show ?thesis by (simp add: simulate_motion_pass_idle)
qed

lemma simulate_motion_passes:
  "fst (simulate_motion ticks self) = self
   \<and> snd (simulate_motion ticks self) = concat (map (\<lambda>t. snd (simulate_motion_pass t self)) ticks)"
proof (induction ticks)
  case Nil
  then show ?case by simp
next
  case (Cons t ticks)
  obtain out where pass: "simulate_motion_pass t self = (self, out)"
    using simulate_motion_pass_state[of t self] by (cases "simulate_motion_pass t self") simp
  with Cons show ?case
    by (simp add: case_prod_beta)
qed

lemma simulate_motion_events:
  "status_events (snd (simulate_motion ticks self)) =
     concat (map (\<lambda>t.
       if alarm_state t = ''armed'' \<and> state self = ''inactive'' \<and> chance t < 3 / 10
       then [(device_id self, ''active''), (device_id self, ''inactive'')] else []) ticks)"
proof -
  have "status_events (concat (map (\<lambda>t. snd (simulate_motion_pass t self)) ticks)) =
     concat (map (\<lambda>t. status_events (snd (simulate_motion_pass t self))) ticks)"
    by (induction ticks) (simp_all add: status_events_append)
  then show ?thesis
    by (simp add: simulate_motion_passes simulate_motion_pass_events)
qed

lemma simulate_motion_all_idle:
  assumes "\<forall>t\<in>set ticks. alarm_state t = ''disarmed''"
  shows "snd (simulate_motion ticks self) = map (\<lambda>t. Sleep (sleep_for t)) ticks"
proof -
  from assms have "concat (map (\<lambda>t. snd (simulate_motion_pass t self)) ticks) =
      map (\<lambda>t. Sleep (sleep_for t)) ticks"
    by (induction ticks) (simp_all add: simulate_motion_pass_idle)
  then show ?thesis
    by (simp add: simulate_motion_passes)
qed

text \<open>
  C4. The simulation loop never makes the sensor active while the alarm is disarmed, whatever
  the random draws: over any number of passes in which the alarm reads "disarmed", the sensor
  is left as it was, no Status Event is emitted, and the loop only sleeps. For any ticks, the
  loop is the sequence of its passes: it leaves the sensor object as it found it, and its
  Status Events are one "active" followed by one "inactive" for each pass in which the alarm
  reads "armed", the sensor is "inactive" and the draw is below 0.3, and none for any other
  pass. Such a pass publishes "active", holds for 5 time units, sets the sensor back to
  "inactive" and publishes that; every other pass sleeps and changes nothing.
\<close>

theorem simulate_motion_never_active_while_disarmed:
  "((\<forall>t\<in>set ticks. alarm_state t = ''disarmed'') \<longrightarrow>
      fst (simulate_motion ticks self) = self
      \<and> status_events (snd (simulate_motion ticks self)) = []
      \<and> snd (simulate_motion ticks self) = map (\<lambda>t. Sleep (sleep_for t)) ticks)
   \<and> fst (simulate_motion ticks self) = self
   \<and> snd (simulate_motion ticks self) =
        concat (map (\<lambda>t. snd (simulate_motion_pass t self)) ticks)
   \<and> status_events (snd (simulate_motion ticks self)) =
        concat (map (\<lambda>t.
          if alarm_state t = ''armed'' \<and> state self = ''inactive'' \<and> chance t < 3 / 10
          then [(device_id self, ''active''), (device_id self, ''inactive'')] else []) ticks)
   \<and> (status_events (snd (simulate_motion_pass t self)) \<noteq> [] \<longrightarrow>
        alarm_state t = ''armed'' \<and> state self = ''inactive'' \<and> chance t < 3 / 10)
   \<and> (alarm_state t = ''armed'' \<and> state self = ''inactive'' \<and> chance t < 3 / 10 \<longrightarrow>
        simulate_motion_pass t self =
          (self\<lparr>state := ''inactive''\<rparr>,
           [Sleep (sleep_for t), Device_print (Motion_detected (device_id self)),
            Status_event (device_id self) ''active'',
            Device_print (Published_status (device_id self) ''active''),
            Sleep 5,
            Status_event (device_id self) ''inactive'',
            Device_print (Published_status (device_id self) ''inactive'')]))
   \<and> (\<not> (alarm_state t = ''armed'' \<and> state self = ''inactive'' \<and> chance t < 3 / 10) \<longrightarrow>
        simulate_motion_pass t self = (self, [Sleep (sleep_for t)]))"
proof -
  have disarmed: "(\<forall>t\<in>set ticks. alarm_state t = ''disarmed'') \<longrightarrow>
      fst (simulate_motion ticks self) = self
      \<and> status_events (snd (simulate_motion ticks self)) = []
      \<and> snd (simulate_motion ticks self) = map (\<lambda>t. Sleep (sleep_for t)) ticks"
    using simulate_motion_disarmed[of ticks self] simulate_motion_all_idle[of ticks self]
    by blast
  have state: "fst (simulate_motion ticks self) = self"
    and passes: "snd (simulate_motion ticks self) =
        concat (map (\<lambda>t. snd (simulate_motion_pass t self)) ticks)"
    using simulate_motion_passes[of ticks self] by blast+
  have events: "status_events (snd (simulate_motion ticks self)) =
        concat (map (\<lambda>t.
          if alarm_state t = ''armed'' \<and> state self = ''inactive'' \<and> chance t < 3 / 10
          then [(device_id self, ''active''), (device_id self, ''inactive'')] else []) ticks)"
    by (rule simulate_motion_events)
  have only_armed: "status_events (snd (simulate_motion_pass t self)) \<noteq> [] \<longrightarrow>
        alarm_state t = ''armed'' \<and> state self = ''inactive'' \<and> chance t < 3 / 10"
    by (simp add: simulate_motion_pass_events)
  have fires: "alarm_state t = ''armed'' \<and> state self = ''inactive'' \<and> chance t < 3 / 10 \<longrightarrow>
        simulate_motion_pass t self =
          (self\<lparr>state := ''inactive''\<rparr>,
           [Sleep (sleep_for t), Device_print (Motion_detected (device_id self)),
            Status_event (device_id self) ''active'',
            Device_print (Published_status (device_id self) ''active''),
            Sleep 5,
            Status_event (device_id self) ''inactive'',
            Device_print (Published_status (device_id self) ''inactive'')])"
    using simulate_motion_pass_fires[of t self] by auto
  have idle: "\<not> (alarm_state t = ''armed'' \<and> state self = ''inactive'' \<and> chance t < 3 / 10) \<longrightarrow>
        simulate_motion_pass t self = (self, [Sleep (sleep_for t)])"
    using simulate_motion_pass_idle[of t self] by blast
  from disarmed state passes events only_armed fires idle show ?thesis
    by (intro conjI)
qed

text \<open>
  Witness for C4: two passes with the alarm disarmed leave an inactive sensor alone, with a
  draw below 0.3 among them; a pass with the alarm armed and the draw 0.25 emits the two
  Status Events; a pass with the alarm armed and the draw 0.5 only sleeps; and a loop of
  three passes, of which the first fires, emits exactly the two events of that pass.
\<close>

theorem simulate_motion_never_active_while_disarmed_witness:
  "alarm_state \<lparr>sleep_for = 12, alarm_state = ''disarmed'', chance = 1 / 10\<rparr> = ''disarmed''
   \<and> alarm_state \<lparr>sleep_for = 25, alarm_state = ''disarmed'', chance = 0\<rparr> = ''disarmed''
   \<and> simulate_motion
        [\<lparr>sleep_for = 12, alarm_state = ''disarmed'', chance = 1 / 10\<rparr>,
         \<lparr>sleep_for = 25, alarm_state = ''disarmed'', chance = 0\<rparr>]
        \<lparr>kind = MotionSensor, device_id = ''motion_sensor_1'', state = ''inactive''\<rparr> =
       (\<lparr>kind = MotionSensor, device_id = ''motion_sensor_1'', state = ''inactive''\<rparr>,
        [Sleep 12, Sleep 25])
   \<and> alarm_state \<lparr>sleep_for = 10, alarm_state = ''armed'', chance = 1 / 4\<rparr> = ''armed''
   \<and> chance \<lparr>sleep_for = 10, alarm_state = ''armed'', chance = 1 / 4\<rparr> < 3 / 10
   \<and> status_events (snd (simulate_motion_pass
        \<lparr>sleep_for = 10, alarm_state = ''armed'', chance = 1 / 4\<rparr>
        \<lparr>kind = MotionSensor, device_id = ''motion_sensor_1'', state = ''inactive''\<rparr>)) =
       [(''motion_sensor_1'', ''active''), (''motion_sensor_1'', ''inactive'')]
   \<and> \<not> (alarm_state \<lparr>sleep_for = 17, alarm_state = ''armed'', chance = 1 / 2\<rparr> = ''armed''
        \<and> state \<lparr>kind = MotionSensor, device_id = ''motion_sensor_1'', state = ''inactive''\<rparr> =
            ''inactive''
        \<and> chance \<lparr>sleep_for = 17, alarm_state = ''armed'', chance = 1 / 2\<rparr> < 3 / 10)
   \<and> simulate_motion_pass \<lparr>sleep_for = 17, alarm_state = ''armed'', chance = 1 / 2\<rparr>
        \<lparr>kind = MotionSensor, device_id = ''motion_sensor_1'', state = ''inactive''\<rparr> =
       (\<lparr>kind = MotionSensor, device_id = ''motion_sensor_1'', state = ''inactive''\<rparr>, [Sleep 17])
   \<and> fst (simulate_motion
        [\<lparr>sleep_for = 10, alarm_state = ''armed'', chance = 1 / 4\<rparr>,
         \<lparr>sleep_for = 12, alarm_state = ''disarmed'', chance = 1 / 10\<rparr>,
         \<lparr>sleep_for = 17, alarm_state = ''armed'', chance = 1 / 2\<rparr>]
        \<lparr>kind = MotionSensor, device_id = ''motion_sensor_1'', state = ''inactive''\<rparr>) =
       \<lparr>kind = MotionSensor, device_id = ''motion_sensor_1'', state = ''inactive''\<rparr>
   \<and> status_events (snd (simulate_motion
        [\<lparr>sleep_for = 10, alarm_state = ''armed'', chance = 1 / 4\<rparr>,
         \<lparr>sleep_for = 12, alarm_state = ''disarmed'', chance = 1 / 10\<rparr>,
         \<lparr>sleep_for = 17, alarm_state = ''armed'', chance = 1 / 2\<rparr>]
        \<lparr>kind = MotionSensor, device_id = ''motion_sensor_1'', state = ''inactive''\<rparr>)) =
       [(''motion_sensor_1'', ''active''), (''motion_sensor_1'', ''inactive'')]"
proof -
  let ?sensor = "\<lparr>kind = MotionSensor, device_id = ''motion_sensor_1'', state = ''inactive''\<rparr>"
  let ?quiet = "[\<lparr>sleep_for = 12, alarm_state = ''disarmed'', chance = 1 / 10\<rparr>,
                 \<lparr>sleep_for = 25, alarm_state = ''disarmed'', chance = 0\<rparr>]"
  let ?mixed = "[\<lparr>sleep_for = 10, alarm_state = ''armed'', chance = 1 / 4\<rparr>,
                 \<lparr>sleep_for = 12, alarm_state = ''disarmed'', chance = 1 / 10\<rparr>,
                 \<lparr>sleep_for = 17, alarm_state = ''armed'', chance = 1 / 2\<rparr>]"
  note quiet = simulate_motion_never_active_while_disarmed
    [of ?quiet ?sensor "\<lparr>sleep_for = 10, alarm_state = ''armed'', chance = 1 / 4\<rparr>"]
  note mixed = simulate_motion_never_active_while_disarmed
    [of ?mixed ?sensor "\<lparr>sleep_for = 17, alarm_state = ''armed'', chance = 1 / 2\<rparr>"]
  have all_disarmed: "\<forall>t\<in>set ?quiet. alarm_state t = ''disarmed''"
    by simp
  from all_disarmed quiet [THEN conjunct1]
  have quiet_run: "fst (simulate_motion ?quiet ?sensor) = ?sensor
      \<and> status_events (snd (simulate_motion ?quiet ?sensor)) = []
      \<and> snd (simulate_motion ?quiet ?sensor) = map (\<lambda>t. Sleep (sleep_for t)) ?quiet"
    by (rule rev_mp)
  have sleeps: "map (\<lambda>t. Sleep (sleep_for t)) ?quiet = [Sleep 12, Sleep 25]"
    by simp
  from quiet_run have a: "simulate_motion ?quiet ?sensor = (?sensor, [Sleep 12, Sleep 25])"
    unfolding sleeps by (simp only: prod_eq_iff fst_conv snd_conv)
  have fires: "alarm_state \<lparr>sleep_for = 10, alarm_state = ''armed'', chance = 1 / 4\<rparr> = ''armed''
      \<and> state ?sensor = ''inactive''
      \<and> chance \<lparr>sleep_for = 10, alarm_state = ''armed'', chance = 1 / 4\<rparr> < 3 / 10"
    by simp
  from fires quiet [THEN conjunct2, THEN conjunct2, THEN conjunct2, THEN conjunct2,
      THEN conjunct2, THEN conjunct1]
  have fired: "simulate_motion_pass \<lparr>sleep_for = 10, alarm_state = ''armed'', chance = 1 / 4\<rparr>
        ?sensor =
      (?sensor\<lparr>state := ''inactive''\<rparr>,
       [Sleep (sleep_for \<lparr>sleep_for = 10, alarm_state = ''armed'', chance = 1 / 4\<rparr>),
        Device_print (Motion_detected (device_id ?sensor)),
        Status_event (device_id ?sensor) ''active'',
        Device_print (Published_status (device_id ?sensor) ''active''),
        Sleep 5,
        Status_event (device_id ?sensor) ''inactive'',
        Device_print (Published_status (device_id ?sensor) ''inactive'')])"
    by (rule rev_mp)
  have b: "status_events (snd (simulate_motion_pass
        \<lparr>sleep_for = 10, alarm_state = ''armed'', chance = 1 / 4\<rparr> ?sensor)) =
       [(''motion_sensor_1'', ''active''), (''motion_sensor_1'', ''inactive'')]"
    unfolding fired by simp
  have stays: "\<not> (alarm_state \<lparr>sleep_for = 17, alarm_state = ''armed'', chance = 1 / 2\<rparr> = ''armed''
        \<and> state ?sensor = ''inactive''
        \<and> chance \<lparr>sleep_for = 17, alarm_state = ''armed'', chance = 1 / 2\<rparr> < 3 / 10)"
    by simp
  from stays mixed [THEN conjunct2, THEN conjunct2, THEN conjunct2, THEN conjunct2,
      THEN conjunct2, THEN conjunct2]
  have idle: "simulate_motion_pass \<lparr>sleep_for = 17, alarm_state = ''armed'', chance = 1 / 2\<rparr>
        ?sensor =
      (?sensor, [Sleep (sleep_for \<lparr>sleep_for = 17, alarm_state = ''armed'', chance = 1 / 2\<rparr>)])"
    by (rule rev_mp)
  have c: "simulate_motion_pass
        \<lparr>sleep_for = 17, alarm_state = ''armed'', chance = 1 / 2\<rparr> ?sensor = (?sensor, [Sleep 17])"
    unfolding idle by simp
  note d = mixed [THEN conjunct2, THEN conjunct1]
  note events = mixed [THEN conjunct2, THEN conjunct2, THEN conjunct2, THEN conjunct1]
  have listed: "concat (map (\<lambda>t.
          if alarm_state t = ''armed'' \<and> state ?sensor = ''inactive'' \<and> chance t < 3 / 10
          then [(device_id ?sensor, ''active''), (device_id ?sensor, ''inactive'')] else []) ?mixed) =
       [(''motion_sensor_1'', ''active''), (''motion_sensor_1'', ''inactive'')]"
    by simp
  have e: "status_events (snd (simulate_motion ?mixed ?sensor)) =
       [(''motion_sensor_1'', ''active''), (''motion_sensor_1'', ''inactive'')]"
    using events listed by (rule trans)
  have heads: "alarm_state \<lparr>sleep_for = 12, alarm_state = ''disarmed'', chance = 1 / 10\<rparr> = ''disarmed''
      \<and> alarm_state \<lparr>sleep_for = 25, alarm_state = ''disarmed'', chance = 0\<rparr> = ''disarmed''"
    by simp
  from heads a fires b stays c d e show ?thesis
    by (intro conjI) (simp_all only: simp_thms)
qed

section \<open>Properties of the callbacks of the controller\<close>

subsection \<open>The store under a status message\<close>



lemma keys_set_entry_state: "map fst (set_entry_state d v ds) = map fst ds"
  by (induction ds) (auto simp: set_entry_state_def)












subsection \<open>A status event applied twice\<close>




subsection \<open>Messages that are dropped\<close>












subsection \<open>Utterances without a keyword\<close>





end
